theory Spec2Isabelle
  imports Main "HOL-Library.AList" "HOL-Library.Sublist"
begin

section \<open>Topic model and translator\<close>

text \<open>
  The adapters under \<^verbatim>\<open>lib/\<close> pass two groups of topic settings to
  \<^verbatim>\<open>AbstractAscoltatore.call(this, opts, {separator, wildcardOne, wildcardSome})\<close>:
  the caller's own (canonical) symbols in \<^verbatim>\<open>opts\<close> and the transport's native symbols
  in the literal object. Both groups have the same three fields.
\<close>

record topic_config =
  separator :: char
  wildcardOne :: string
  wildcardSome :: string

text \<open>The native settings literal of \<^verbatim>\<open>AMQPAscoltatore\<close>.\<close>

definition amqp_native :: topic_config where
  "amqp_native = \<lparr>separator = CHR ''.'', wildcardOne = ''*'', wildcardSome = ''#''\<rparr>"

text \<open>The native settings literal of \<^verbatim>\<open>RedisClusterAscoltatore\<close>.\<close>

definition redis_native :: topic_config where
  "redis_native = \<lparr>separator = CHR ''/'', wildcardOne = ''*'', wildcardSome = ''*''\<rparr>"

text \<open>
  Modelled from the spec: \<^verbatim>\<open>parse(raw, separator)\<close> and \<^verbatim>\<open>format(segments, separator)\<close>
  of the Topic Model, which live in \<^verbatim>\<open>abstract_ascoltatore.js\<close> (absent). A topic is
  split at every occurrence of the separator, empty segments included, so that
  re-joining reproduces the string. The same function is JavaScript's
  \<^verbatim>\<open>topic.split("/")\<close> used by the AMQP adapter's \<^verbatim>\<open>publish\<close>.
\<close>

fun parse :: "string \<Rightarrow> char \<Rightarrow> string list" where
  "parse [] sep = [[]]"
| "parse (c # cs) sep =
     (if c = sep then [] # parse cs sep
      else (c # hd (parse cs sep)) # tl (parse cs sep))"

fun format :: "string list \<Rightarrow> char \<Rightarrow> string" where
  "format [] sep = []"
| "format [x] sep = x"
| "format (x # y # ys) sep = x @ sep # format (y # ys) sep"

text \<open>
  Modelled from the spec: \<^verbatim>\<open>translateOut\<close> and \<^verbatim>\<open>translateIn\<close> of the Topic Translator
  (\<^verbatim>\<open>_subTopic\<close>, \<^verbatim>\<open>_pubTopic\<close> and \<^verbatim>\<open>_recvTopic\<close> of the absent
  \<^verbatim>\<open>abstract_ascoltatore.js\<close>): "translation substitutes between the canonical symbols
  and the transport's symbols segment-by-segment".
\<close>

definition segOut :: "topic_config \<Rightarrow> topic_config \<Rightarrow> string \<Rightarrow> string" where
  "segOut canon native seg =
     (if seg = wildcardOne canon then wildcardOne native
      else if seg = wildcardSome canon then wildcardSome native
      else seg)"


definition translateOut :: "string \<Rightarrow> topic_config \<Rightarrow> topic_config \<Rightarrow> string" where
  "translateOut t canon native =
     format (map (segOut canon native) (parse t (separator canon))) (separator native)"



section \<open>JavaScript values and built-ins\<close>

text \<open>
  The payloads the adapters are handed: \<^verbatim>\<open>undefined\<close>, \<^verbatim>\<open>null\<close>, booleans, strings and
  binary \<^verbatim>\<open>Buffer\<close>s (a list of bytes).
\<close>

datatype js_value = JUndefined | JNull | JBool bool | JStr string | JBuffer "char list"

text \<open>
  The exceptions a call can end in: the "closed" condition raised by
  \<^verbatim>\<open>_raiseIfClosed\<close>, and the \<^verbatim>\<open>TypeError\<close> JavaScript raises when a method is called
  on \<^verbatim>\<open>undefined\<close> (a field not yet assigned, or deleted).
\<close>

datatype js_error = ClosedError | TypeError

text \<open>
  \<^verbatim>\<open>String(message)\<close>. The text of a \<^verbatim>\<open>Buffer\<close> is what the runtime's decoder makes of
  its bytes; the decoder is the parameter \<open>dec\<close>.
\<close>

fun js_String :: "(char list \<Rightarrow> string) \<Rightarrow> js_value \<Rightarrow> string" where
  "js_String dec JUndefined = ''undefined''"
| "js_String dec JNull = ''null''"
| "js_String dec (JBool b) = (if b then ''true'' else ''false'')"
| "js_String dec (JStr s) = s"
| "js_String dec (JBuffer bs) = dec bs"

text \<open>
  \<^verbatim>\<open>str.indexOf(pat, from)\<close>: the first position at or after \<open>from\<close> (clamped to the
  string) where \<open>pat\<close> occurs, or \<open>-1\<close>.
\<close>

fun indexOf_aux :: "string \<Rightarrow> string \<Rightarrow> nat \<Rightarrow> int" where
  "indexOf_aux [] pat i = (if pat = [] then int i else - 1)"
| "indexOf_aux (c # cs) pat i =
     (if take (length pat) (c # cs) = pat then int i else indexOf_aux cs pat (Suc i))"

definition indexOf :: "string \<Rightarrow> string \<Rightarrow> int \<Rightarrow> int" where
  "indexOf str pat from =
     (let k = min (nat from) (length str) in indexOf_aux (drop k str) pat k)"

text \<open>\<^verbatim>\<open>function endsWith(str, suffix)\<close> of the AMQP adapter.\<close>

definition endsWith :: "string \<Rightarrow> string \<Rightarrow> bool" where
  "endsWith str sfx = (indexOf str sfx (int (length str) - int (length sfx)) \<noteq> - 1)"

text \<open>\<^verbatim>\<open>topicParts[i]\<close>: \<^verbatim>\<open>undefined\<close> (here \<open>None\<close>) past the end of the array.\<close>

definition part :: "string list \<Rightarrow> nat \<Rightarrow> string option" where
  "part ps i = (if i < length ps then Some (ps ! i) else None)"

text \<open>
  Modelled from the spec: \<^verbatim>\<open>util.defer\<close> and \<^verbatim>\<open>util.wrap\<close> (\<^verbatim>\<open>util.js\<close>, absent), section 9
  and 4.4: \<^verbatim>\<open>util.defer(done)\<close> forces the completion callback onto a later turn, and
  \<^verbatim>\<open>wrap(done)()\<close> completes the notification immediately. A fired completion is recorded
  with the way it was fired. Callbacks and delivery targets are told apart by identity,
  a number.
\<close>

datatype completion = Deferred nat | Called nat

text \<open>The cause of a transport error: a string or an \<^verbatim>\<open>Error\<close> object with a message.\<close>

datatype cause = CauseString string | CauseError string

text \<open>The notifications an instance emits to its observers.\<close>

datatype event = EvReady | EvClosed | EvError cause

section \<open>Reference counter and local trie\<close>

text \<open>
  Modelled from the spec: the Reference Counter (\<^verbatim>\<open>subs_counter.js\<close>, absent), section 4.3:
  \<^verbatim>\<open>add\<close> increments the count of a pattern, \<^verbatim>\<open>remove\<close> decrements it and is a no-op on a
  pattern not present, \<^verbatim>\<open>includes\<close> is true iff the count is positive, \<^verbatim>\<open>clear\<close> drops all
  entries. A pattern without an entry has count 0.
\<close>

type_synonym subs_counter = "string \<Rightarrow> nat"

definition subs_clear :: subs_counter where
  "subs_clear = (\<lambda>_. 0)"

definition subs_add :: "string \<Rightarrow> subs_counter \<Rightarrow> subs_counter" where
  "subs_add p c = c(p := Suc (c p))"

definition subs_remove :: "string \<Rightarrow> subs_counter \<Rightarrow> subs_counter" where
  "subs_remove p c = (if c p = 0 then c else c(p := c p - 1))"

definition subs_include :: "string \<Rightarrow> subs_counter \<Rightarrow> bool" where
  "subs_include p c = (0 < c p)"

text \<open>
  Modelled from the spec: the local subscription index (\<^verbatim>\<open>trie_ascoltatore.js\<close>, absent),
  as the Subscriptions it holds, in the order they were registered: pairs of pattern and
  delivery target. \<^verbatim>\<open>subscribe\<close> adds one Subscription, \<^verbatim>\<open>unsubscribe\<close> destroys one matching
  Subscription. The spec leaves the treatment of a malformed pattern to the implementer
  (section 3); here a pattern is stored as it is given. Matching is not modelled.
\<close>

type_synonym trie = "(string \<times> nat) list"

definition trie_subscribe :: "string \<Rightarrow> nat \<Rightarrow> trie \<Rightarrow> trie" where
  "trie_subscribe topic callback tr = tr @ [(topic, callback)]"

definition trie_unsubscribe :: "string \<Rightarrow> nat \<Rightarrow> trie \<Rightarrow> trie" where
  "trie_unsubscribe topic callback tr = remove1 (topic, callback) tr"

text \<open>
  Modelled from the spec: \<^verbatim>\<open>_raiseIfClosed\<close> of the absent \<^verbatim>\<open>abstract_ascoltatore.js\<close>,
  section 4.5: an operation "rejects with a closed condition if state is closing, closed
  or errored-closed". The state is read from the flags \<^verbatim>\<open>_closed\<close> and \<^verbatim>\<open>_closing\<close>.
\<close>

definition raiseIfClosed :: "bool \<Rightarrow> bool \<Rightarrow> bool" where
  "raiseIfClosed closed closing = (closed \<or> closing)"

section \<open>The AMQP adapter\<close>

datatype headers = DeviceHeaders "string option" string | TransmitterHeaders "string option" string

text \<open>The calls the adapter makes on the AMQP client (connection, exchange, queue), in order.\<close>

datatype amqp_call =
    CreateConnection
  | CreateExchange
  | CreateQueue
  | QueueSubscribe
  | QueueBind string
  | QueueUnbind string
  | QueueDestroy
  | ConnEnd
  | ConnPublish string js_value headers string
  | ExchangePublish string string string

text \<open>
  A listener on the connection object: the constructor's error handler, or the \<^verbatim>\<open>doClose\<close>
  closure of a \<^verbatim>\<open>close(done)\<close> call with the \<^verbatim>\<open>done\<close> it captured.
\<close>

datatype conn_listener = Surface | DoClose nat

record amqp =
  a_canon :: topic_config
  a_ready :: bool
  a_closed :: bool
  a_closing :: bool
  a_client_conn :: bool
  a_exchange :: bool
  a_queue :: bool
  a_ascoltatore :: trie
  a_subs_counter :: subs_counter
  a_calls :: "amqp_call list"
  a_bind_waiters :: "nat list"
  a_unbind_waiters :: "nat list"
  a_on_conn_error :: "conn_listener list"
  a_on_conn_close :: "conn_listener list"
  a_on_closed :: "nat list"
  a_completions :: "completion list"
  a_emitted :: "event list"

definition dataV1Queue :: string where "dataV1Queue = ''mqtt-broker:device:data''"
definition powerQueue :: string where "powerQueue = ''mqtt-broker:device:power''"
definition dataV2Queue :: string where "dataV2Queue = ''mqtt-broker:device:v2:data''"
definition deviceConnectQueue :: string where
  "deviceConnectQueue = ''mqtt-broker:device:v2:connect''"
definition transmitterConnectQueue :: string where
  "transmitterConnectQueue = ''mqtt-broker:transmitter:v2:connect''"

definition oneMinute :: string where "oneMinute = ''60000''"

text \<open>
  The constructor with \<^verbatim>\<open>_startConn\<close> up to its first wait: the connection is created and
  the error handler installed; \<^verbatim>\<open>_exchange\<close> and \<^verbatim>\<open>_queue\<close> are not yet assigned. A field
  that holds an object is modelled by whether it is assigned; a method call on an
  unassigned field raises \<^verbatim>\<open>TypeError\<close>. The delivery of inbound messages to the local
  trie (the consumer callback of \<^verbatim>\<open>_queue.subscribe\<close>) is not modelled.
\<close>

definition AMQPAscoltatore :: "topic_config \<Rightarrow> amqp" where
  "AMQPAscoltatore canon =
     \<lparr>a_canon = canon, a_ready = False, a_closed = False, a_closing = False,
      a_client_conn = True, a_exchange = False, a_queue = False,
      a_ascoltatore = [], a_subs_counter = subs_clear,
      a_calls = [CreateConnection], a_bind_waiters = [], a_unbind_waiters = [],
      a_on_conn_error = [Surface], a_on_conn_close = [],
      a_on_closed = [], a_completions = [], a_emitted = []\<rparr>"

text \<open>
  The steps of \<^verbatim>\<open>async.series\<close> in \<^verbatim>\<open>_startConn\<close>, each run when the event it waits for
  arrives: connection ready, exchange open, queue declared, consumer registered. The
  last one emits \<^verbatim>\<open>ready\<close>.
\<close>

definition startConn_connected :: "amqp \<Rightarrow> amqp" where
  "startConn_connected s = s\<lparr>a_exchange := True, a_calls := a_calls s @ [CreateExchange]\<rparr>"

definition startConn_exchange_open :: "amqp \<Rightarrow> amqp" where
  "startConn_exchange_open s = s\<lparr>a_queue := True, a_calls := a_calls s @ [CreateQueue]\<rparr>"

definition startConn_queue_declared :: "amqp \<Rightarrow> amqp" where
  "startConn_queue_declared s = s\<lparr>a_calls := a_calls s @ [QueueSubscribe]\<rparr>"

definition startConn_consume_ok :: "amqp \<Rightarrow> amqp" where
  "startConn_consume_ok s = s\<lparr>a_ready := True, a_emitted := a_emitted s @ [EvReady]\<rparr>"

definition startConn_all :: "amqp \<Rightarrow> amqp" where
  "startConn_all s =
     startConn_consume_ok (startConn_queue_declared (startConn_exchange_open (startConn_connected s)))"

definition amqp_subscribe :: "string \<Rightarrow> nat \<Rightarrow> nat \<Rightarrow> amqp \<Rightarrow> js_error option \<times> amqp" where
  "amqp_subscribe topic callback done s =
     (if raiseIfClosed (a_closed s) (a_closing s) then (Some ClosedError, s)
      else
        let s1 = s\<lparr>a_ascoltatore := trie_subscribe topic callback (a_ascoltatore s)\<rparr> in
        if \<not> subs_include topic (a_subs_counter s1) then
          (if \<not> a_queue s1 then (Some TypeError, s1)
           else
             (None, s1\<lparr>a_bind_waiters := a_bind_waiters s1 @ [done],
                       a_calls := a_calls s1 @ [QueueBind (translateOut topic (a_canon s1) amqp_native)],
                       a_subs_counter := subs_add topic (a_subs_counter s1)\<rparr>))
        else
          (None, s1\<lparr>a_completions := a_completions s1 @ [Deferred done],
                    a_subs_counter := subs_add topic (a_subs_counter s1)\<rparr>))"

definition amqp_unsubscribe :: "string \<Rightarrow> nat \<Rightarrow> nat \<Rightarrow> amqp \<Rightarrow> js_error option \<times> amqp" where
  "amqp_unsubscribe topic callback done s =
     (if raiseIfClosed (a_closed s) (a_closing s) then (Some ClosedError, s)
      else
        let s1 = s\<lparr>a_subs_counter := subs_remove topic (a_subs_counter s)\<rparr>;
            s2 = s1\<lparr>a_ascoltatore := trie_unsubscribe topic callback (a_ascoltatore s1)\<rparr> in
        if \<not> subs_include topic (a_subs_counter s2) then
          (if \<not> a_queue s2 then (Some TypeError, s2)
           else
             (None, s2\<lparr>a_unbind_waiters := a_unbind_waiters s2 @ [done],
                       a_calls := a_calls s2 @ [QueueUnbind (translateOut topic (a_canon s2) amqp_native)]\<rparr>))
        else
          (None, s2\<lparr>a_completions := a_completions s2 @ [Deferred done]\<rparr>))"

text \<open>
  The auxiliary forward of \<^verbatim>\<open>publish\<close>: the queue and headers chosen from the topic's
  path, if any.
\<close>

definition forwardTarget :: "string \<Rightarrow> (string \<times> headers) option" where
  "forwardTarget topic =
     (let topicParts = parse topic CHR ''/''; version = part topicParts 1 in
      if version = Some ''v1'' then
        (let deviceId = part topicParts 2 in
         if endsWith topic ''/data'' then Some (dataV1Queue, DeviceHeaders deviceId topic)
         else if endsWith topic ''/data/power'' then Some (powerQueue, DeviceHeaders deviceId topic)
         else None)
      else if version = Some ''v2'' then
        (let collection = part topicParts 3; itemId = part topicParts 2;
             eventClass = part topicParts 4 in
         if collection = Some ''transmitter'' \<and> eventClass = Some ''presence''
            \<and> part topicParts 5 = Some ''connect''
         then Some (transmitterConnectQueue, TransmitterHeaders itemId topic)
         else if collection = Some ''device'' \<and> eventClass = Some ''presence''
            \<and> part topicParts 5 = Some ''connect''
         then Some (deviceConnectQueue, DeviceHeaders itemId topic)
         else if collection = Some ''device'' \<and> eventClass = Some ''data''
         then Some (dataV2Queue, DeviceHeaders itemId topic)
         else None)
      else None)"

definition amqp_publish ::
  "(char list \<Rightarrow> string) \<Rightarrow> string \<Rightarrow> js_value \<Rightarrow> nat \<Rightarrow> amqp \<Rightarrow> js_error option \<times> amqp" where
  "amqp_publish dec topic message done s =
     (if raiseIfClosed (a_closed s) (a_closing s) then (Some ClosedError, s)
      else
        case (case forwardTarget topic of
                None \<Rightarrow> Inr s
              | Some (queue, hs) \<Rightarrow>
                  if \<not> a_client_conn s then Inl TypeError
                  else Inr (s\<lparr>a_calls := a_calls s @ [ConnPublish queue message hs oneMinute]\<rparr>))
        of
          Inl e \<Rightarrow> (Some e, s)
        | Inr s1 \<Rightarrow>
            if \<not> a_exchange s1 then (Some TypeError, s1)
            else
              (None, s1\<lparr>a_calls := a_calls s1 @
                          [ExchangePublish (translateOut topic (a_canon s1) amqp_native)
                             (js_String dec message) oneMinute],
                        a_completions := a_completions s1 @ [Deferred done]\<rparr>))"

text \<open>
  Modelled from the spec: what \<^verbatim>\<open>this.emit("closed")\<close> does to the instance, section 4.4:
  the instance moves to the closed state (the flag \<^verbatim>\<open>_closed\<close> is only read by the adapters;
  its writer is in the absent \<^verbatim>\<open>abstract_ascoltatore.js\<close>). The listeners the adapter
  attached with \<^verbatim>\<open>this.on("closed", done)\<close> then run in the order they were attached.
\<close>

definition amqp_emit_closed :: "amqp \<Rightarrow> amqp" where
  "amqp_emit_closed s =
     s\<lparr>a_closed := True, a_emitted := a_emitted s @ [EvClosed],
       a_completions := a_completions s @ map Called (a_on_closed s)\<rparr>"

text \<open>One listener of the connection run on an event; \<open>c\<close> is the cause of an error event.\<close>

fun run_listener :: "cause option \<Rightarrow> conn_listener \<Rightarrow> amqp \<Rightarrow> amqp" where
  "run_listener c Surface s =
     (case c of
        None \<Rightarrow> s
      | Some (CauseString m) \<Rightarrow> s\<lparr>a_emitted := a_emitted s @ [EvError (CauseError m)]\<rparr>
      | Some (CauseError m) \<Rightarrow> s\<lparr>a_emitted := a_emitted s @ [EvError (CauseError m)]\<rparr>)"
| "run_listener c (DoClose done) s =
     (if a_closed s then s
      else amqp_emit_closed (s\<lparr>a_completions := a_completions s @ [Deferred done]\<rparr>))"

definition amqp_conn_error :: "cause \<Rightarrow> amqp \<Rightarrow> amqp" where
  "amqp_conn_error c s = fold (run_listener (Some c)) (a_on_conn_error s) s"

definition amqp_conn_close :: "amqp \<Rightarrow> amqp" where
  "amqp_conn_close s = fold (run_listener None) (a_on_conn_close s) s"

text \<open>
  Modelled from the spec: the exception in which \<^verbatim>\<open>emit\<close> of the absent base class ends,
  section 7: a transport error is "surfaced via an error notification to observers of
  the Router Core; does not crash the process". The notification is handed to the
  observers and \<^verbatim>\<open>emit\<close> returns: it raises nothing.
\<close>

definition emit_raises :: "event \<Rightarrow> js_error option" where
  "emit_raises e = None"

text \<open>
  The exception, if any, in which a listener of the connection ends. The constructor's
  handler tests \<^verbatim>\<open>typeof error\<close>, builds an \<^verbatim>\<open>Error\<close> and calls \<^verbatim>\<open>that.emit\<close>; \<^verbatim>\<open>doClose\<close>
  reads \<^verbatim>\<open>that._closed\<close> and, if it is not set, calls \<^verbatim>\<open>util.defer\<close> and \<^verbatim>\<open>that.emit\<close>.
  \<^verbatim>\<open>that\<close> is the instance itself, so no call is made on an unassigned field; what is left
  is the outcome of \<^verbatim>\<open>emit\<close>.
\<close>

fun listener_raises :: "cause option \<Rightarrow> conn_listener \<Rightarrow> amqp \<Rightarrow> js_error option" where
  "listener_raises c Surface s =
     (case c of
        None \<Rightarrow> None
      | Some (CauseString m) \<Rightarrow> emit_raises (EvError (CauseError m))
      | Some (CauseError m) \<Rightarrow> emit_raises (EvError (CauseError m)))"
| "listener_raises c (DoClose done) s =
     (if a_closed s then None else emit_raises EvClosed)"

text \<open>
  An event of the connection with its outcome for the process: the listeners run in
  order; an exception that escapes one of them is uncaught and ends the run.
\<close>

fun run_listeners ::
  "cause option \<Rightarrow> conn_listener list \<Rightarrow> amqp \<Rightarrow> js_error option \<times> amqp" where
  "run_listeners c [] s = (None, s)"
| "run_listeners c (l # ls) s =
     (case listener_raises c l s of
        Some e \<Rightarrow> (Some e, run_listener c l s)
      | None \<Rightarrow> run_listeners c ls (run_listener c l s))"

definition amqp_conn_error_result :: "cause \<Rightarrow> amqp \<Rightarrow> js_error option \<times> amqp" where
  "amqp_conn_error_result c s = run_listeners (Some c) (a_on_conn_error s) s"

definition amqp_close :: "nat \<Rightarrow> amqp \<Rightarrow> js_error option \<times> amqp" where
  "amqp_close done s =
     (if a_closed s then (None, s\<lparr>a_completions := a_completions s @ [Called done]\<rparr>)
      else if a_closing s then (None, s\<lparr>a_on_closed := a_on_closed s @ [done]\<rparr>)
      else
        let s1 = s\<lparr>a_closing := True\<rparr> in
        if a_client_conn s1 then
          (let s2 = s1\<lparr>a_on_conn_close := a_on_conn_close s1 @ [DoClose done]\<rparr> in
           if \<not> a_queue s2 then (Some TypeError, s2)
           else
             (None, s2\<lparr>a_calls := a_calls s2 @ [QueueDestroy, ConnEnd],
                       a_on_conn_error := [DoClose done],
                       a_client_conn := False, a_exchange := False, a_queue := False\<rparr>))
        else (None, s1))"

section \<open>The Redis cluster adapter\<close>

text \<open>The calls the adapter makes on the cluster client, with the \<^verbatim>\<open>done\<close> they carry.\<close>

datatype redis_call =
    PSubscribe string nat
  | Subscribe string nat
  | PUnsubscribe string nat
  | Unsubscribe string nat
  | Publish string js_value nat
  | Disconnect nat

text \<open>
  \<^verbatim>\<open>_ascoltatores\<close> is an object used as a dictionary; its keys are kept in insertion
  order, the order \<^verbatim>\<open>for (var subTopic in ...)\<close> visits them. \<open>r_closed_locals\<close> lists the
  keys whose local ascoltatore has been closed. Every key ends in \<^verbatim>\<open>/\<close> or \<^verbatim>\<open>*\<close>, so none
  meets a property inherited from \<^verbatim>\<open>Object.prototype\<close>. The \<^verbatim>\<open>_domain\<close> registration and the
  delivery of inbound messages (\<^verbatim>\<open>_startPubSub\<close>) are not modelled.
\<close>

record redis =
  r_canon :: topic_config
  r_closed :: bool
  r_ascoltatores :: "(string \<times> trie) list"
  r_subs_counter :: subs_counter
  r_calls :: "redis_call list"
  r_closed_locals :: "string list"
  r_completions :: "completion list"
  r_emitted :: "event list"
  r_console :: "js_value list"

definition RedisClusterAscoltatore :: "topic_config \<Rightarrow> redis" where
  "RedisClusterAscoltatore canon =
     \<lparr>r_canon = canon, r_closed = False, r_ascoltatores = [], r_subs_counter = subs_clear,
      r_calls = [], r_closed_locals = [], r_completions = [], r_emitted = [],
      r_console = []\<rparr>"

definition containsWildcard :: "topic_config \<Rightarrow> string \<Rightarrow> bool" where
  "containsWildcard canon topic =
     (indexOf topic (wildcardOne canon) 0 \<ge> 0 \<or> indexOf topic (wildcardSome canon) 0 \<ge> 0)"

text \<open>\<^verbatim>\<open>subTopic.match(new RegExp('[/*]$'))\<close> and \<^verbatim>\<open>topic.match(new RegExp('/$'))\<close>.\<close>

definition endsSepOrStar :: "string \<Rightarrow> bool" where
  "endsSepOrStar str = (str \<noteq> [] \<and> (last str = CHR ''/'' \<or> last str = CHR ''*''))"

definition endsSep :: "string \<Rightarrow> bool" where
  "endsSep str = (str \<noteq> [] \<and> last str = CHR ''/'')"

text \<open>The transport key of a topic, as \<^verbatim>\<open>subscribe\<close> and \<^verbatim>\<open>unsubscribe\<close> both compute it.\<close>

definition subKey :: "topic_config \<Rightarrow> string \<Rightarrow> string" where
  "subKey canon topic =
     (let subTopic = translateOut topic canon redis_native in
      if \<not> endsSepOrStar subTopic then subTopic @ ''/'' else subTopic)"

definition redis_subscribe :: "string \<Rightarrow> nat \<Rightarrow> nat \<Rightarrow> redis \<Rightarrow> js_error option \<times> redis" where
  "redis_subscribe topic callback done s =
     (if raiseIfClosed (r_closed s) False then (Some ClosedError, s)
      else
        let subTopic = subKey (r_canon s) topic;
            s1 = (if containsWildcard (r_canon s) topic
                  then s\<lparr>r_calls := r_calls s @ [PSubscribe subTopic done]\<rparr>
                  else s\<lparr>r_calls := r_calls s @ [Subscribe subTopic done]\<rparr>);
            s2 = s1\<lparr>r_subs_counter := subs_add subTopic (r_subs_counter s1)\<rparr>;
            ascoltatore = (case map_of (r_ascoltatores s2) subTopic of
                             None \<Rightarrow> [] | Some a \<Rightarrow> a)
        in (None, s2\<lparr>r_ascoltatores :=
                       AList.update subTopic (trie_subscribe topic callback ascoltatore)
                         (r_ascoltatores s2)\<rparr>))"

text \<open>The transport topic \<^verbatim>\<open>publish\<close> computes.\<close>

definition pubKey :: "topic_config \<Rightarrow> string \<Rightarrow> string" where
  "pubKey canon topic =
     (let topic1 = translateOut topic canon redis_native in
      if \<not> endsSep topic1 then topic1 @ ''/'' else topic1)"

definition redis_publish :: "string \<Rightarrow> js_value \<Rightarrow> nat \<Rightarrow> redis \<Rightarrow> js_error option \<times> redis" where
  "redis_publish topic message done s =
     (let s0 = s\<lparr>r_console := r_console s @ [message]\<rparr> in
      if raiseIfClosed (r_closed s0) False then (Some ClosedError, s0)
      else
        let message1 = (if message = JUndefined \<or> message = JNull then JBool False else message);
            topic1 = pubKey (r_canon s0) topic
        in (None, s0\<lparr>r_calls := r_calls s0 @ [Publish topic1 message1 done]\<rparr>))"

definition redis_unsubscribe :: "string \<Rightarrow> nat \<Rightarrow> nat \<Rightarrow> redis \<Rightarrow> js_error option \<times> redis" where
  "redis_unsubscribe topic callback done s =
     (if raiseIfClosed (r_closed s) False then (Some ClosedError, s)
      else
        let isWildcard = containsWildcard (r_canon s) topic;
            subTopic = subKey (r_canon s) topic;
            s1 = s\<lparr>r_subs_counter := subs_remove subTopic (r_subs_counter s)\<rparr>;
            ascoltatore = map_of (r_ascoltatores s1) subTopic;
            s2 = (case ascoltatore of
                    None \<Rightarrow> s1
                  | Some a \<Rightarrow>
                      s1\<lparr>r_ascoltatores :=
                           AList.update subTopic (trie_unsubscribe topic callback a)
                             (r_ascoltatores s1)\<rparr>)
        in
        if subs_include subTopic (r_subs_counter s2)
        then (None, s2\<lparr>r_completions := r_completions s2 @ [Deferred done]\<rparr>)
        else
          let s3 = (case ascoltatore of
                      None \<Rightarrow> s2
                    | Some a \<Rightarrow>
                        s2\<lparr>r_closed_locals := r_closed_locals s2 @ [subTopic],
                           r_ascoltatores := AList.delete subTopic (r_ascoltatores s2)\<rparr>)
          in
          if isWildcard
          then (None, s3\<lparr>r_calls := r_calls s3 @ [PUnsubscribe subTopic done]\<rparr>)
          else (None, s3\<lparr>r_calls := r_calls s3 @ [Unsubscribe subTopic done]\<rparr>))"

text \<open>
  \<^verbatim>\<open>close\<close>. Its last statement, \<^verbatim>\<open>this.emit("closed")\<close>, moves the instance to the closed
  state, as for the AMQP adapter.
\<close>

definition redis_close :: "nat \<Rightarrow> redis \<Rightarrow> js_error option \<times> redis" where
  "redis_close done s =
     (if r_closed s then (None, s\<lparr>r_completions := r_completions s @ [Deferred done]\<rparr>)
      else
        (None, s\<lparr>r_subs_counter := subs_clear,
                 r_calls := r_calls s @ [Disconnect done],
                 r_closed_locals := r_closed_locals s @ map fst (r_ascoltatores s),
                 r_ascoltatores := [],
                 r_closed := True,
                 r_emitted := r_emitted s @ [EvClosed]\<rparr>))"

section \<open>Properties as the specification words them\<close>

text \<open>
  A topic "contains a wildcard symbol" when one of the instance's two wildcard symbols
  occurs in it as a substring. This is the property in words; \<open>containsWildcard\<close> above
  is the source's test.
\<close>

definition hasWildcardSymbol :: "topic_config \<Rightarrow> string \<Rightarrow> bool" where
  "hasWildcardSymbol canon topic =
     (sublist (wildcardOne canon) topic \<or> sublist (wildcardSome canon) topic)"

text \<open>
  The invariant of the Redis cluster adapter: a local ascoltatore exists for a transport
  key exactly when the counter's count for that key is positive.
\<close>

definition redis_inv :: "redis \<Rightarrow> bool" where
  "redis_inv s =
     (\<forall>key. (map_of (r_ascoltatores s) key \<noteq> None) = (0 < r_subs_counter s key))"

text \<open>
  Caller-side settings of an instance, used where the model is run on concrete inputs:
  MQTT-style symbols.
\<close>

definition canon_example :: topic_config where
  "canon_example = \<lparr>separator = CHR ''/'', wildcardOne = ''+'', wildcardSome = ''#''\<rparr>"

section \<open>Topic model: basic facts\<close>






section \<open>Translation round trip\<close>






section \<open>AMQP adapter: reference counting\<close>

lemmas startConn_defs = startConn_all_def startConn_consume_ok_def
  startConn_queue_declared_def startConn_exchange_open_def startConn_connected_def
  AMQPAscoltatore_def

text \<open>
  Claim C1. On an open AMQP instance whose queue exists and whose counter does not yet
  include the pattern \<open>p\<close>, two subscribes of \<open>p\<close> (targets \<open>cb1\<close>, \<open>cb2\<close>) and two
  unsubscribes all return normally; the first subscribe issues the one queue bind, the
  second subscribe and the first unsubscribe issue no transport call, and the second
  unsubscribe issues the one queue unbind. The counter, not the identity of the targets,
  decides: the statement holds for any targets, distinct ones included, and for either
  order of the two unsubscribes.
\<close>

theorem amqp_reference_counting:
  assumes "\<not> a_closed s" and "\<not> a_closing s" and "a_queue s"
      and "\<not> subs_include p (a_subs_counter s)"
  shows "\<exists>s1 s2 s3 s4.
           amqp_subscribe p cb1 d1 s = (None, s1)
         \<and> amqp_subscribe p cb2 d2 s1 = (None, s2)
         \<and> amqp_unsubscribe p u1 d3 s2 = (None, s3)
         \<and> amqp_unsubscribe p u2 d4 s3 = (None, s4)
         \<and> a_calls s1 = a_calls s @ [QueueBind (translateOut p (a_canon s) amqp_native)]
         \<and> a_calls s2 = a_calls s1
         \<and> a_ascoltatore s2 = a_ascoltatore s @ [(p, cb1), (p, cb2)]
         \<and> a_calls s3 = a_calls s2
         \<and> a_calls s4 = a_calls s3 @ [QueueUnbind (translateOut p (a_canon s) amqp_native)]"
  using assms
  by (simp add: amqp_subscribe_def amqp_unsubscribe_def raiseIfClosed_def Let_def
        subs_include_def subs_add_def subs_remove_def trie_subscribe_def)

text \<open>The same on a fresh instance that has become ready, pattern \<^verbatim>\<open>hello\<close>.\<close>

theorem amqp_reference_counting_witness:
  "\<exists>s1 s2 s3 s4.
           amqp_subscribe ''hello'' 1 11 (startConn_all (AMQPAscoltatore canon_example)) = (None, s1)
         \<and> amqp_subscribe ''hello'' 2 12 s1 = (None, s2)
         \<and> amqp_unsubscribe ''hello'' 1 13 s2 = (None, s3)
         \<and> amqp_unsubscribe ''hello'' 2 14 s3 = (None, s4)
         \<and> a_calls s1 = [CreateConnection, CreateExchange, CreateQueue, QueueSubscribe,
                          QueueBind ''hello'']
         \<and> a_calls s2 = a_calls s1
         \<and> a_ascoltatore s2 = [(''hello'', 1), (''hello'', 2)]
         \<and> a_calls s3 = a_calls s2
         \<and> a_calls s4 = a_calls s3 @ [QueueUnbind ''hello'']"
  using amqp_reference_counting
          [of "startConn_all (AMQPAscoltatore canon_example)" "''hello''" 1 11 2 12 1 13 2 14]
  by (simp add: startConn_defs subs_include_def subs_clear_def translateOut_def segOut_def
        canon_example_def amqp_native_def)

section \<open>Close\<close>

text \<open>
  The Redis cluster adapter's \<^verbatim>\<open>close\<close> clears the counter and drops every local
  ascoltatore.
\<close>

lemma redis_close_clears:
  "\<not> r_closed s \<Longrightarrow>
     r_closed (snd (redis_close d s)) \<and> r_ascoltatores (snd (redis_close d s)) = []
     \<and> r_subs_counter (snd (redis_close d s)) = subs_clear"
  by (simp add: redis_close_def)

text \<open>
  The AMQP adapter's \<^verbatim>\<open>close\<close> and the \<^verbatim>\<open>doClose\<close> it installs touch neither the counter
  nor the local trie.
\<close>

lemma run_listener_keeps:
  "a_subs_counter (run_listener c l s) = a_subs_counter s
   \<and> a_ascoltatore (run_listener c l s) = a_ascoltatore s"
  by (cases l; cases c) (auto simp: amqp_emit_closed_def split: cause.splits)

lemma fold_run_listener_keeps:
  "a_subs_counter (fold (run_listener c) ls s) = a_subs_counter s
   \<and> a_ascoltatore (fold (run_listener c) ls s) = a_ascoltatore s"
  by (induction ls arbitrary: s) (simp_all add: run_listener_keeps)

lemma amqp_close_keeps:
  "a_subs_counter (amqp_conn_close (snd (amqp_close d s))) = a_subs_counter s
   \<and> a_ascoltatore (amqp_conn_close (snd (amqp_close d s))) = a_ascoltatore s"
  by (simp add: amqp_conn_close_def fold_run_listener_keeps amqp_close_def Let_def)

text \<open>
  Claim C2 at the AMQP adapter: a ready instance with one subscription to \<^verbatim>\<open>hello\<close> is
  closed and the connection reports \<^verbatim>\<open>close\<close>. The instance is then closed, yet the
  counter still includes \<^verbatim>\<open>hello\<close> and the local trie still holds the subscription.
\<close>

theorem amqp_close_keeps_subscriptions:
  "(let s0 = startConn_all (AMQPAscoltatore canon_example);
        s1 = snd (amqp_subscribe ''hello'' 1 11 s0);
        s2 = amqp_conn_close (snd (amqp_close 12 s1))
    in a_closed s2 \<and> subs_include ''hello'' (a_subs_counter s2)
       \<and> a_ascoltatore s2 = [(''hello'', 1)])"
  by (simp add: startConn_defs amqp_subscribe_def amqp_close_def amqp_conn_close_def
        amqp_emit_closed_def raiseIfClosed_def subs_include_def subs_add_def subs_clear_def
        trie_subscribe_def Let_def)

text \<open>
  Claim C4, with \<^verbatim>\<open>_raiseIfClosed\<close> as the specification describes it. Once \<^verbatim>\<open>close\<close> has
  been called, on either adapter, every subscribe,
  unsubscribe and publish ends in the closed condition with the state as it was: nothing
  indexed, no transport call (the Redis cluster adapter's \<^verbatim>\<open>publish\<close> has by then logged the
  message to the console, and nothing else). After a call of \<^verbatim>\<open>close\<close> the AMQP instance
  is closing or closed and the Redis cluster instance is closed.
\<close>

theorem closed_operations_raise:
  "(a_closing s \<or> a_closed s \<longrightarrow>
       amqp_subscribe t cb d s = (Some ClosedError, s)
     \<and> amqp_unsubscribe t cb d s = (Some ClosedError, s)
     \<and> amqp_publish dec t m d s = (Some ClosedError, s))
   \<and> (r_closed r \<longrightarrow>
       redis_subscribe t cb d r = (Some ClosedError, r)
     \<and> redis_unsubscribe t cb d r = (Some ClosedError, r)
     \<and> redis_publish t m d r = (Some ClosedError, r\<lparr>r_console := r_console r @ [m]\<rparr>))
   \<and> (a_closing (snd (amqp_close d' s)) \<or> a_closed (snd (amqp_close d' s)))
   \<and> r_closed (snd (redis_close d' r))"
  by (simp add: amqp_subscribe_def amqp_unsubscribe_def amqp_publish_def redis_subscribe_def
        redis_unsubscribe_def redis_publish_def raiseIfClosed_def amqp_close_def
        redis_close_def Let_def)

text \<open>Both adapters, closed right after becoming ready, reject a subscribe and a publish.\<close>

theorem closed_operations_raise_witness:
  "a_closing (snd (amqp_close 12 (startConn_all (AMQPAscoltatore canon_example))))
   \<and> fst (amqp_subscribe ''hello'' 1 11
            (snd (amqp_close 12 (startConn_all (AMQPAscoltatore canon_example)))))
       = Some ClosedError
   \<and> fst (amqp_publish id ''hello'' (JStr ''x'') 11
            (snd (amqp_close 12 (startConn_all (AMQPAscoltatore canon_example)))))
       = Some ClosedError
   \<and> r_closed (snd (redis_close 12 (RedisClusterAscoltatore canon_example)))
   \<and> fst (redis_subscribe ''hello'' 1 11
            (snd (redis_close 12 (RedisClusterAscoltatore canon_example))))
       = Some ClosedError
   \<and> fst (redis_publish ''hello'' (JStr ''x'') 11
            (snd (redis_close 12 (RedisClusterAscoltatore canon_example))))
       = Some ClosedError"
  using closed_operations_raise
          [of "snd (amqp_close 12 (startConn_all (AMQPAscoltatore canon_example)))"
              "''hello''" 1 11 id "JStr ''x''"
              "snd (redis_close 12 (RedisClusterAscoltatore canon_example))" 12]
  by (simp add: startConn_defs amqp_close_def redis_close_def RedisClusterAscoltatore_def
        Let_def)

text \<open>
  Claim C5. AMQP adapter, open instance with connection and queue: the first \<^verbatim>\<open>close\<close>
  issues the one shutdown (queue destroy, connection end) and leaves the instance
  closing; a second \<^verbatim>\<open>close\<close> only attaches its completion to \<^verbatim>\<open>closed\<close>; when the
  connection reports \<^verbatim>\<open>close\<close> the instance is closed, \<^verbatim>\<open>closed\<close> is emitted once and the
  completions of both calls fire; a later error or \<^verbatim>\<open>close\<close> event of the connection
  changes nothing, and a third \<^verbatim>\<open>close\<close> only calls its completion at once.
  Redis cluster adapter: the first \<^verbatim>\<open>close\<close> disconnects and reaches the closed state
  within the call; a second \<^verbatim>\<open>close\<close> only schedules its completion.
\<close>

theorem close_once:
  "(\<not> a_closed s \<and> \<not> a_closing s \<and> a_client_conn s \<and> a_queue s \<and> a_on_conn_close s = [] \<longrightarrow>
     (\<exists>s1 s2 s4.
        amqp_close d1 s = (None, s1)
      \<and> a_calls s1 = a_calls s @ [QueueDestroy, ConnEnd] \<and> a_closing s1 \<and> \<not> a_closed s1
      \<and> amqp_close d2 s1 = (None, s2)
      \<and> s2 = s1\<lparr>a_on_closed := a_on_closed s1 @ [d2]\<rparr>
      \<and> a_closed (amqp_conn_close s2)
      \<and> a_calls (amqp_conn_close s2) = a_calls s1
      \<and> a_emitted (amqp_conn_close s2) = a_emitted s @ [EvClosed]
      \<and> a_completions (amqp_conn_close s2) =
            a_completions s @ [Deferred d1] @ map Called (a_on_closed s) @ [Called d2]
      \<and> amqp_conn_error c (amqp_conn_close s2) = amqp_conn_close s2
      \<and> amqp_conn_close (amqp_conn_close s2) = amqp_conn_close s2
      \<and> amqp_close d3 (amqp_conn_close s2) = (None, s4)
      \<and> s4 = (amqp_conn_close s2)
                \<lparr>a_completions := a_completions (amqp_conn_close s2) @ [Called d3]\<rparr>))
   \<and> (\<not> r_closed r \<longrightarrow>
     (\<exists>r1 r2.
        redis_close d1 r = (None, r1)
      \<and> r_calls r1 = r_calls r @ [Disconnect d1] \<and> r_closed r1
      \<and> r_emitted r1 = r_emitted r @ [EvClosed]
      \<and> redis_close d2 r1 = (None, r2)
      \<and> r2 = r1\<lparr>r_completions := r_completions r1 @ [Deferred d2]\<rparr>))"
  by (simp add: amqp_close_def amqp_conn_close_def amqp_conn_error_def amqp_emit_closed_def
        redis_close_def Let_def)

text \<open>Three closes of a ready AMQP instance and two of a Redis cluster instance.\<close>

theorem close_once_witness:
  "(\<exists>s1 s2 s4.
        amqp_close 1 (startConn_all (AMQPAscoltatore canon_example)) = (None, s1)
      \<and> a_calls s1 = [CreateConnection, CreateExchange, CreateQueue, QueueSubscribe,
                       QueueDestroy, ConnEnd]
      \<and> amqp_close 2 s1 = (None, s2)
      \<and> a_calls (amqp_conn_close s2) = a_calls s1
      \<and> a_emitted (amqp_conn_close s2) = [EvReady, EvClosed]
      \<and> a_completions (amqp_conn_close s2) = [Deferred 1, Called 2]
      \<and> amqp_close 3 (amqp_conn_close s2) = (None, s4)
      \<and> a_calls s4 = a_calls s1
      \<and> a_completions s4 = [Deferred 1, Called 2, Called 3])
   \<and> (\<exists>r1 r2.
        redis_close 1 (RedisClusterAscoltatore canon_example) = (None, r1)
      \<and> r_calls r1 = [Disconnect 1]
      \<and> redis_close 2 r1 = (None, r2)
      \<and> r_calls r2 = [Disconnect 1]
      \<and> r_completions r2 = [Deferred 2])"
  using close_once
          [of "startConn_all (AMQPAscoltatore canon_example)" 1 2 "CauseString ''x''" 3
              "RedisClusterAscoltatore canon_example"]
  by (simp add: startConn_defs RedisClusterAscoltatore_def amqp_close_def amqp_conn_close_def
        amqp_emit_closed_def redis_close_def Let_def)

section \<open>Publish: the payload\<close>

text \<open>
  The Redis cluster adapter hands the transport \<^verbatim>\<open>false\<close> when the caller publishes
  \<^verbatim>\<open>null\<close>: the payload is not passed through unchanged.
\<close>

theorem publish_payload_counterexample:
  "r_calls (snd (redis_publish ''hello'' JNull 7 (RedisClusterAscoltatore canon_example)))
     = [Publish ''hello/'' (JBool False) 7]
   \<and> JBool False \<noteq> JNull"
  by (simp add: redis_publish_def RedisClusterAscoltatore_def raiseIfClosed_def Let_def
        translateOut_def segOut_def canon_example_def redis_native_def endsSep_def pubKey_def)

text \<open>
  Claim C6, as the code has it. An open Redis cluster instance hands the transport's
  publish the caller's payload unchanged unless it is \<^verbatim>\<open>undefined\<close> or \<^verbatim>\<open>null\<close>, which
  are replaced by \<^verbatim>\<open>false\<close>. An open AMQP instance with connection and exchange hands
  the auxiliary queue (when the topic selects one) the payload unchanged and the
  exchange \<^verbatim>\<open>String(message)\<close>, which is the payload itself when that is a string.
\<close>

theorem publish_payload:
  "(\<not> r_closed r \<longrightarrow>
      redis_publish t m d r =
         (None, r\<lparr>r_console := r_console r @ [m],
                   r_calls := r_calls r @
                     [Publish (pubKey (r_canon r) t)
                        (if m = JUndefined \<or> m = JNull then JBool False else m) d]\<rparr>))
   \<and> (\<not> a_closed s \<and> \<not> a_closing s \<and> a_client_conn s \<and> a_exchange s \<longrightarrow>
      fst (amqp_publish dec t m d s) = None
      \<and> a_calls (snd (amqp_publish dec t m d s)) =
          a_calls s
          @ (case forwardTarget t of None \<Rightarrow> []
             | Some (queue, hs) \<Rightarrow> [ConnPublish queue m hs oneMinute])
          @ [ExchangePublish (translateOut t (a_canon s) amqp_native) (js_String dec m) oneMinute])
   \<and> js_String dec (JStr x) = x"
  by (simp add: redis_publish_def amqp_publish_def raiseIfClosed_def Let_def
      split: option.splits)

text \<open>A binary payload through the Redis cluster adapter, a string through the AMQP one.\<close>

theorem publish_payload_witness:
  "r_calls (snd (redis_publish ''image'' (JBuffer [CHR 0x89, CHR ''P'']) 7
                  (RedisClusterAscoltatore canon_example)))
     = [Publish ''image/'' (JBuffer [CHR 0x89, CHR ''P'']) 7]
   \<and> a_calls (snd (amqp_publish id ''/v1/dev7/data'' (JStr ''21.5'') 7
                      (startConn_all (AMQPAscoltatore canon_example))))
     = [CreateConnection, CreateExchange, CreateQueue, QueueSubscribe,
        ConnPublish ''mqtt-broker:device:data'' (JStr ''21.5'')
          (DeviceHeaders (Some ''dev7'') ''/v1/dev7/data'') ''60000'',
        ExchangePublish ''.v1.dev7.data'' ''21.5'' ''60000'']"
  using publish_payload
          [where r = "RedisClusterAscoltatore canon_example" and t = "''image''"
             and m = "JBuffer [CHR 0x89, CHR ''P'']" and d = 7]
        publish_payload
          [where s = "startConn_all (AMQPAscoltatore canon_example)" and dec = id
             and t = "''/v1/dev7/data''" and m = "JStr ''21.5''" and d = 7]
  by (simp add: startConn_defs RedisClusterAscoltatore_def pubKey_def endsSep_def
        translateOut_def segOut_def canon_example_def redis_native_def amqp_native_def
        forwardTarget_def part_def endsWith_def indexOf_def dataV1Queue_def oneMinute_def
        Let_def)

section \<open>Before readiness\<close>

text \<open>
  A subscribe issued on a fresh AMQP instance, before any readiness step, is run at
  once: the subscription is registered locally and the call raises a \<^verbatim>\<open>TypeError\<close>
  (\<^verbatim>\<open>_queue\<close> is not yet assigned). When the instance then becomes ready, no bind is
  issued: the subscribe was neither deferred nor replayed.
\<close>

theorem deferral_counterexample:
  "amqp_subscribe ''hello'' 1 11 (AMQPAscoltatore canon_example)
     = (Some TypeError, (AMQPAscoltatore canon_example)\<lparr>a_ascoltatore := [(''hello'', 1)]\<rparr>)
   \<and> a_calls (startConn_all (snd (amqp_subscribe ''hello'' 1 11 (AMQPAscoltatore canon_example))))
     = [CreateConnection, CreateExchange, CreateQueue, QueueSubscribe]"
  by (simp add: startConn_defs amqp_subscribe_def raiseIfClosed_def subs_include_def
        subs_clear_def trie_subscribe_def Let_def)

text \<open>
  Claim C7, as the code has it. On an open AMQP instance whose exchange and queue do not
  exist yet, each operation runs when it is called: a first-of-kind subscribe registers
  locally and raises \<^verbatim>\<open>TypeError\<close>; a last-of-kind unsubscribe updates counter and trie
  and raises \<^verbatim>\<open>TypeError\<close>; a publish makes its auxiliary forward, if the topic selects
  one, and raises \<^verbatim>\<open>TypeError\<close>. The readiness steps add only their own three calls and
  fire no completion: nothing is replayed.
\<close>

theorem no_deferral:
  assumes "\<not> a_closed s" and "\<not> a_closing s" and "a_client_conn s"
      and "\<not> a_exchange s" and "\<not> a_queue s"
  shows "(\<not> subs_include t (a_subs_counter s) \<longrightarrow>
            amqp_subscribe t cb d s =
              (Some TypeError, s\<lparr>a_ascoltatore := trie_subscribe t cb (a_ascoltatore s)\<rparr>))
       \<and> (a_subs_counter s t \<le> 1 \<longrightarrow>
            amqp_unsubscribe t cb d s =
              (Some TypeError, s\<lparr>a_subs_counter := subs_remove t (a_subs_counter s),
                                 a_ascoltatore := trie_unsubscribe t cb (a_ascoltatore s)\<rparr>))
       \<and> amqp_publish dec t m d s =
            (Some TypeError,
             s\<lparr>a_calls := a_calls s @
                  (case forwardTarget t of None \<Rightarrow> []
                   | Some (queue, hs) \<Rightarrow> [ConnPublish queue m hs oneMinute])\<rparr>)
       \<and> a_calls (startConn_all s) = a_calls s @ [CreateExchange, CreateQueue, QueueSubscribe]
       \<and> a_ascoltatore (startConn_all s) = a_ascoltatore s
       \<and> a_completions (startConn_all s) = a_completions s"
  using assms
  by (auto simp add: amqp_subscribe_def amqp_unsubscribe_def amqp_publish_def raiseIfClosed_def
      Let_def startConn_defs subs_include_def subs_remove_def split: option.splits)

text \<open>The three operations on a fresh instance.\<close>

theorem no_deferral_witness:
  "fst (amqp_subscribe ''hello'' 1 11 (AMQPAscoltatore canon_example)) = Some TypeError
   \<and> a_ascoltatore (snd (amqp_subscribe ''hello'' 1 11 (AMQPAscoltatore canon_example)))
       = [(''hello'', 1)]
   \<and> fst (amqp_unsubscribe ''hello'' 1 11 (AMQPAscoltatore canon_example)) = Some TypeError
   \<and> amqp_publish id ''hello'' (JStr ''x'') 11 (AMQPAscoltatore canon_example)
       = (Some TypeError, AMQPAscoltatore canon_example)
   \<and> a_calls (startConn_all (AMQPAscoltatore canon_example))
       = [CreateConnection, CreateExchange, CreateQueue, QueueSubscribe]"
  using no_deferral
          [where s = "AMQPAscoltatore canon_example" and t = "''hello''" and cb = 1 and d = 11
             and dec = id and m = "JStr ''x''"]
  by (simp add: AMQPAscoltatore_def subs_include_def subs_clear_def trie_subscribe_def
        forwardTarget_def part_def Let_def)

section \<open>Transport errors\<close>


text \<open>The listeners of the connection never raise; the run is the fold of their effects.\<close>

lemma listener_raises_none: "listener_raises c l s = None"
  by (cases l; cases c) (auto simp: emit_raises_def split: cause.splits)

lemma run_listeners_fold: "run_listeners c ls s = (None, fold (run_listener c) ls s)"
  by (induction ls arbitrary: s) (simp_all add: listener_raises_none)

lemma conn_error_result_eq: "amqp_conn_error_result c s = (None, amqp_conn_error c s)"
  by (simp add: amqp_conn_error_result_def amqp_conn_error_def run_listeners_fold)








section \<open>Redis cluster adapter: local ascoltatori and the counter\<close>

lemma redis_invD:
  "redis_inv s \<Longrightarrow> (map_of (r_ascoltatores s) key \<noteq> None) = (0 < r_subs_counter s key)"
  by (simp add: redis_inv_def)

lemma redis_inv_new: "redis_inv (RedisClusterAscoltatore canon)"
  by (simp add: redis_inv_def RedisClusterAscoltatore_def subs_clear_def)

lemma redis_inv_subscribe: "redis_inv s \<Longrightarrow> redis_inv (snd (redis_subscribe t cb d s))"
  by (auto simp: redis_inv_def redis_subscribe_def Let_def update_conv' subs_add_def)

lemma redis_inv_unsubscribe:
  assumes "redis_inv s"
  shows "redis_inv (snd (redis_unsubscribe t cb d s))"
  unfolding redis_inv_def
proof
  fix key
  show "(map_of (r_ascoltatores (snd (redis_unsubscribe t cb d s))) key \<noteq> None)
        = (0 < r_subs_counter (snd (redis_unsubscribe t cb d s)) key)"
    using redis_invD [OF assms, of key] redis_invD [OF assms, of "subKey (r_canon s) t"]
    by (auto simp: redis_unsubscribe_def Let_def update_conv' delete_conv'
          subs_remove_def subs_include_def split: option.splits)
qed

lemma redis_inv_publish: "redis_inv s \<Longrightarrow> redis_inv (snd (redis_publish t m d s))"
  by (simp add: redis_inv_def redis_publish_def Let_def)

lemma redis_inv_close: "redis_inv s \<Longrightarrow> redis_inv (snd (redis_close d s))"
  by (auto simp: redis_inv_def redis_close_def subs_clear_def)

lemma redis_unsubscribe_last:
  assumes "redis_inv s" and "\<not> r_closed s"
      and "r_subs_counter s (subKey (r_canon s) t) = 1"
  shows "r_subs_counter (snd (redis_unsubscribe t cb d s)) (subKey (r_canon s) t) = 0
       \<and> map_of (r_ascoltatores (snd (redis_unsubscribe t cb d s))) (subKey (r_canon s) t) = None
       \<and> r_closed_locals (snd (redis_unsubscribe t cb d s))
           = r_closed_locals s @ [subKey (r_canon s) t]"
proof -
  from redis_invD [OF assms(1), of "subKey (r_canon s) t"] assms(3)
  obtain a0 where "map_of (r_ascoltatores s) (subKey (r_canon s) t) = Some a0"
    by auto
  with assms(2,3) show ?thesis
    by (simp add: redis_unsubscribe_def Let_def raiseIfClosed_def subs_remove_def
          subs_include_def delete_conv')
qed

lemma redis_close_locals:
  "\<not> r_closed s \<Longrightarrow>
     r_closed_locals (snd (redis_close d s)) = r_closed_locals s @ map fst (r_ascoltatores s)
     \<and> r_ascoltatores (snd (redis_close d s)) = []"
  by (simp add: redis_close_def)

text \<open>
  Claim C9. The invariant "a local ascoltatore exists for a key iff the key's count is
  positive" holds of a new instance (\<open>redis_inv_new\<close>) and is preserved by subscribe,
  unsubscribe and close, whatever they return. When an unsubscribe on an open instance
  takes a key's count from one to zero, the key's local ascoltatore is closed and
  removed; a close of an open instance closes and removes all of them.
\<close>

theorem redis_local_iff_counted:
  assumes "redis_inv s"
  shows "redis_inv (snd (redis_subscribe t cb d s))
       \<and> redis_inv (snd (redis_unsubscribe t cb d s))
       \<and> redis_inv (snd (redis_close d s))
       \<and> (\<not> r_closed s \<and> r_subs_counter s (subKey (r_canon s) t) = 1 \<longrightarrow>
            r_subs_counter (snd (redis_unsubscribe t cb d s)) (subKey (r_canon s) t) = 0
          \<and> map_of (r_ascoltatores (snd (redis_unsubscribe t cb d s))) (subKey (r_canon s) t) = None
          \<and> r_closed_locals (snd (redis_unsubscribe t cb d s))
              = r_closed_locals s @ [subKey (r_canon s) t])
       \<and> (\<not> r_closed s \<longrightarrow>
            r_closed_locals (snd (redis_close d s))
              = r_closed_locals s @ map fst (r_ascoltatores s)
          \<and> r_ascoltatores (snd (redis_close d s)) = [])"
  using redis_inv_subscribe [OF assms] redis_inv_unsubscribe [OF assms]
    redis_inv_close [OF assms] redis_unsubscribe_last [OF assms, of t cb d]
    redis_close_locals [of s d]
  by blast

text \<open>
  An instance with one subscription to \<^verbatim>\<open>hello\<close>: the invariant holds before and after
  the unsubscribe, which closes and removes the local ascoltatore of \<^verbatim>\<open>hello/\<close>.
\<close>

theorem redis_local_iff_counted_witness:
  "redis_inv (snd (redis_subscribe ''hello'' 1 11 (RedisClusterAscoltatore canon_example)))
   \<and> redis_inv (snd (redis_unsubscribe ''hello'' 1 12
        (snd (redis_subscribe ''hello'' 1 11 (RedisClusterAscoltatore canon_example)))))
   \<and> r_ascoltatores (snd (redis_subscribe ''hello'' 1 11 (RedisClusterAscoltatore canon_example)))
       = [(''hello/'', [(''hello'', 1)])]
   \<and> r_closed_locals (snd (redis_unsubscribe ''hello'' 1 12
        (snd (redis_subscribe ''hello'' 1 11 (RedisClusterAscoltatore canon_example)))))
       = [''hello/'']"
proof -
  let ?s = "snd (redis_subscribe ''hello'' 1 11 (RedisClusterAscoltatore canon_example))"
  have key: "subKey canon_example ''hello'' = ''hello/''"
    by (simp add: subKey_def translateOut_def segOut_def canon_example_def redis_native_def
          endsSepOrStar_def)
  have nw: "\<not> containsWildcard canon_example ''hello''"
    by (simp add: containsWildcard_def indexOf_def canon_example_def)
  have s: "?s = (RedisClusterAscoltatore canon_example)
             \<lparr>r_calls := [Subscribe ''hello/'' 11],
              r_subs_counter := subs_add ''hello/'' subs_clear,
              r_ascoltatores := [(''hello/'', [(''hello'', 1)])]\<rparr>"
    by (simp add: redis_subscribe_def key nw RedisClusterAscoltatore_def raiseIfClosed_def
          trie_subscribe_def Let_def)
  have inv: "redis_inv ?s"
    using redis_local_iff_counted [OF redis_inv_new, of "''hello''" 1 11 canon_example]
    by simp
  have "\<not> r_closed ?s" "r_canon ?s = canon_example"
       "r_subs_counter ?s ''hello/'' = 1" "r_closed_locals ?s = []"
    unfolding s by (simp_all add: RedisClusterAscoltatore_def subs_add_def subs_clear_def)
  with redis_local_iff_counted [OF inv, of "''hello''" 1 12] key
  have "redis_inv (snd (redis_unsubscribe ''hello'' 1 12 ?s))"
       "r_closed_locals (snd (redis_unsubscribe ''hello'' 1 12 ?s)) = [''hello/'']"
    by simp_all
  moreover have "r_ascoltatores ?s = [(''hello/'', [(''hello'', 1)])]"
    unfolding s by simp
  ultimately show ?thesis using inv by simp
qed

section \<open>Redis cluster adapter: kind of subscription and transport key\<close>

lemma indexOf_aux_sublist: "(0 \<le> indexOf_aux str pat i) = sublist pat str"
proof (induction str arbitrary: i)
  case Nil
  show ?case by (auto simp: sublist_def)
next
  case (Cons c cs)
  show ?case
  proof (cases "take (length pat) (c # cs) = pat")
    case True
    then have "c # cs = [] @ pat @ drop (length pat) (c # cs)"
      by (metis append_Nil append_take_drop_id)
    then have "sublist pat (c # cs)" unfolding sublist_def by blast
    with True show ?thesis by simp
  next
    case False
    have "sublist pat (c # cs) = sublist pat cs"
    proof
      assume "sublist pat (c # cs)"
      then obtain ps ss where e: "c # cs = ps @ pat @ ss" unfolding sublist_def by blast
      show "sublist pat cs"
      proof (cases ps)
        case Nil
        with e have "take (length pat) (c # cs) = pat" by simp
        with False show ?thesis by simp
      next
        case (Cons p ps')
        with e have "cs = ps' @ pat @ ss" by simp
        then show ?thesis unfolding sublist_def by blast
      qed
    next
      assume "sublist pat cs"
      then obtain ps ss where "cs = ps @ pat @ ss" unfolding sublist_def by blast
      then have "c # cs = (c # ps) @ pat @ ss" by simp
      then show "sublist pat (c # cs)" unfolding sublist_def by blast
    qed
    with False Cons [of "Suc i"] show ?thesis by simp
  qed
qed

text \<open>\<^verbatim>\<open>_containsWildcard\<close> decides exactly whether a wildcard symbol occurs in the topic.\<close>

lemma containsWildcard_iff: "containsWildcard canon topic = hasWildcardSymbol canon topic"
  by (simp add: containsWildcard_def hasWildcardSymbol_def indexOf_def indexOf_aux_sublist)

lemma redis_subscribe_calls:
  "\<not> r_closed s \<Longrightarrow>
      r_calls (snd (redis_subscribe t cb d s)) =
        r_calls s @ [if hasWildcardSymbol (r_canon s) t
                     then PSubscribe (subKey (r_canon s) t) d
                     else Subscribe (subKey (r_canon s) t) d]"
  by (simp add: redis_subscribe_def Let_def raiseIfClosed_def containsWildcard_iff)

lemma redis_unsubscribe_last_calls:
  "\<not> r_closed s \<Longrightarrow> r_subs_counter s (subKey (r_canon s) t) \<le> 1 \<Longrightarrow>
      r_calls (snd (redis_unsubscribe t cb d s)) =
        r_calls s @ [if hasWildcardSymbol (r_canon s) t
                     then PUnsubscribe (subKey (r_canon s) t) d
                     else Unsubscribe (subKey (r_canon s) t) d]"
  by (simp add: redis_unsubscribe_def Let_def raiseIfClosed_def containsWildcard_iff
        subs_remove_def subs_include_def split: option.splits)

lemma redis_unsubscribe_shared_calls:
  "\<not> r_closed s \<Longrightarrow> 1 < r_subs_counter s (subKey (r_canon s) t) \<Longrightarrow>
      r_calls (snd (redis_unsubscribe t cb d s)) = r_calls s"
  by (simp add: redis_unsubscribe_def Let_def raiseIfClosed_def
        subs_remove_def subs_include_def split: option.splits)

lemma subKey_trailing:
  "subKey canon t =
       (if translateOut t canon redis_native \<noteq> []
           \<and> last (translateOut t canon redis_native) \<in> {separator redis_native, CHR ''*''}
        then translateOut t canon redis_native
        else translateOut t canon redis_native @ [separator redis_native])"
  by (auto simp: subKey_def endsSepOrStar_def Let_def redis_native_def)

text \<open>
  Claim C10. On an open instance, subscribe issues \<open>PSubscribe\<close> exactly when the topic
  contains one of the instance's wildcard symbols and \<open>Subscribe\<close> otherwise; an
  unsubscribe that finds the key's count at most one (the last reference) issues
  \<open>PUnsubscribe\<close> exactly when the topic contains a wildcard symbol and \<open>Unsubscribe\<close>
  otherwise, and one that finds a larger count issues nothing. The key in every one of
  these calls is the translated topic, with the separator appended unless it ends in
  the separator or in \<^verbatim>\<open>*\<close>, the transport's wildcard.
\<close>

theorem redis_subscription_kind:
  "(\<not> r_closed s \<longrightarrow>
      r_calls (snd (redis_subscribe t cb d s)) =
        r_calls s @ [if hasWildcardSymbol (r_canon s) t
                     then PSubscribe (subKey (r_canon s) t) d
                     else Subscribe (subKey (r_canon s) t) d])
   \<and> (\<not> r_closed s \<and> r_subs_counter s (subKey (r_canon s) t) \<le> 1 \<longrightarrow>
      r_calls (snd (redis_unsubscribe t cb d s)) =
        r_calls s @ [if hasWildcardSymbol (r_canon s) t
                     then PUnsubscribe (subKey (r_canon s) t) d
                     else Unsubscribe (subKey (r_canon s) t) d])
   \<and> (\<not> r_closed s \<and> 1 < r_subs_counter s (subKey (r_canon s) t) \<longrightarrow>
      r_calls (snd (redis_unsubscribe t cb d s)) = r_calls s)
   \<and> subKey canon t =
       (if translateOut t canon redis_native \<noteq> []
           \<and> last (translateOut t canon redis_native) \<in> {separator redis_native, CHR ''*''}
        then translateOut t canon redis_native
        else translateOut t canon redis_native @ [separator redis_native])"
  using redis_subscribe_calls [of s t cb d] redis_unsubscribe_last_calls [of s t cb d]
    redis_unsubscribe_shared_calls [of s t cb d] subKey_trailing [of canon t]
  by blast

text \<open>
  A pattern with a wildcard and a plain topic, each subscribed and unsubscribed once on
  a new instance.
\<close>

theorem redis_subscription_kind_witness:
  "r_calls (snd (redis_subscribe ''sensors/+/temp'' 1 11 (RedisClusterAscoltatore canon_example)))
     = [PSubscribe ''sensors/*/temp/'' 11]
   \<and> r_calls (snd (redis_unsubscribe ''sensors/#'' 1 12 (RedisClusterAscoltatore canon_example)))
     = [PUnsubscribe ''sensors/*'' 12]
   \<and> r_calls (snd (redis_subscribe ''hello'' 1 13 (RedisClusterAscoltatore canon_example)))
     = [Subscribe ''hello/'' 13]
   \<and> r_calls (snd (redis_unsubscribe ''hello'' 1 14 (RedisClusterAscoltatore canon_example)))
     = [Unsubscribe ''hello/'' 14]"
proof -
  have w1: "hasWildcardSymbol canon_example ''sensors/+/temp''"
    unfolding containsWildcard_iff [symmetric]
    by (simp add: containsWildcard_def indexOf_def canon_example_def)
  have w2: "hasWildcardSymbol canon_example ''sensors/#''"
    unfolding containsWildcard_iff [symmetric]
    by (simp add: containsWildcard_def indexOf_def canon_example_def)
  have w3: "\<not> hasWildcardSymbol canon_example ''hello''"
    unfolding containsWildcard_iff [symmetric]
    by (simp add: containsWildcard_def indexOf_def canon_example_def)
  have k: "subKey canon_example ''sensors/+/temp'' = ''sensors/*/temp/''"
          "subKey canon_example ''sensors/#'' = ''sensors/*''"
          "subKey canon_example ''hello'' = ''hello/''"
    by (simp_all add: subKey_def translateOut_def segOut_def canon_example_def
          redis_native_def endsSepOrStar_def)
  have n: "\<not> r_closed (RedisClusterAscoltatore canon_example)"
          "r_canon (RedisClusterAscoltatore canon_example) = canon_example"
          "r_calls (RedisClusterAscoltatore canon_example) = []"
          "r_subs_counter (RedisClusterAscoltatore canon_example) = subs_clear"
    by (simp_all add: RedisClusterAscoltatore_def)
  have sub: "r_calls (snd (redis_subscribe t cb d (RedisClusterAscoltatore canon_example))) =
        [if hasWildcardSymbol canon_example t
         then PSubscribe (subKey canon_example t) d
         else Subscribe (subKey canon_example t) d]" for t cb d
    using redis_subscription_kind
            [where s = "RedisClusterAscoltatore canon_example" and t = t and cb = cb and d = d,
             THEN conjunct1]
    by (simp add: n)
  have unsub: "r_calls (snd (redis_unsubscribe t cb d (RedisClusterAscoltatore canon_example))) =
        [if hasWildcardSymbol canon_example t
         then PUnsubscribe (subKey canon_example t) d
         else Unsubscribe (subKey canon_example t) d]" for t cb d
    using redis_subscription_kind
            [where s = "RedisClusterAscoltatore canon_example" and t = t and cb = cb and d = d,
             THEN conjunct2, THEN conjunct1]
    by (simp add: n subs_clear_def)
  show ?thesis
    by (simp add: sub unsub k w1 w2 w3)
qed

end
